theory Spec2Isabelle
  imports Complex_Main
begin

section \<open>Data model\<close>

text \<open>
  The service keeps one table, \<^verbatim>\<open>rolls\<close> (models.py). A timestamp is an instant, counted
  in microseconds since the epoch (the resolution of Python's \<^verbatim>\<open>datetime\<close> and of the
  database's \<^verbatim>\<open>timestamptz\<close>); a calendar day is a day number since the epoch. The
  \<^verbatim>\<open>Float\<close> columns are exact rationals here: rounding error, infinities and NaN of
  binary floating point are outside the model.
\<close>

type_synonym datetime = int
type_synonym date = int

record roll =
  roll_id :: int
  roll_length :: rat
  weight :: rat
  added_date :: datetime
  removed_date :: "datetime option"

text \<open>schemas.RollCreate, the body of a create request.\<close>

record RollCreate =
  new_length :: rat
  new_weight :: rat

text \<open>
  The session's view of the database: the rows in storage order and the next value of the
  primary key's sequence.
\<close>

record db =
  rows :: "roll list"
  next_id :: int

subsection \<open>Exceptions\<close>

text \<open>
  The exceptions the handlers raise or catch. \<^verbatim>\<open>HTTPException\<close> (FastAPI, from Starlette)
  is a subclass of \<^verbatim>\<open>Exception\<close> and carries a status code and a detail; it is what the
  framework turns into the HTTP response. \<^verbatim>\<open>SQLAlchemyError\<close> is what a failing database
  statement raises.
\<close>

datatype exn =
  HTTPException nat string
  | SQLAlchemyError string

definition digit_char :: "nat \<Rightarrow> char" where
  "digit_char d = ''0123456789'' ! d"

fun show_nat :: "nat \<Rightarrow> string" where
  "show_nat n = (if n < 10 then [digit_char n] else show_nat (n div 10) @ [digit_char (n mod 10)])"

declare show_nat.simps [simp del]

text \<open>\<^verbatim>\<open>str(e)\<close>: Starlette renders an HTTPException as \<^verbatim>\<open>"{status_code}: {detail}"\<close>.\<close>

fun str_exn :: "exn \<Rightarrow> string" where
  "str_exn (HTTPException c d) = show_nat c @ '': '' @ d"
| "str_exn (SQLAlchemyError m) = m"

text \<open>
  The two \<^verbatim>\<open>except\<close> clauses that close every handler of routers/rolls.py, in the source's
  order: \<^verbatim>\<open>except SQLAlchemyError\<close> first, then \<^verbatim>\<open>except Exception\<close>, which catches every
  other exception raised in the \<^verbatim>\<open>try\<close> body, the body's own HTTPException included.
\<close>

fun except_clauses :: "exn \<Rightarrow> exn" where
  "except_clauses (SQLAlchemyError m) = HTTPException 500 (''Database error: '' @ m)"
| "except_clauses e = HTTPException 500 (''Unexpected error: '' @ str_exn e)"

definition try_except :: "(exn + 'a) \<times> db \<Rightarrow> (exn + 'a) \<times> db" where
  "try_except res = (case res of (Inl e, s) \<Rightarrow> (Inl (except_clauses e), s) | (Inr v, s) \<Rightarrow> (Inr v, s))"

section \<open>Create and delete\<close>

text \<open>models.get_utc_time: the current instant with the microseconds dropped.\<close>

definition get_utc_time :: "datetime \<Rightarrow> datetime" where
  "get_utc_time now = now - now mod 1000000"

text \<open>
  The \<^verbatim>\<open>try\<close> body of create_roll. \<open>now\<close> is the clock reading; \<open>fault\<close> is \<open>Some m\<close> when
  the database fails during this request (the statement raises SQLAlchemyError with message
  \<open>m\<close> and the session is rolled back, so nothing is stored).
\<close>

definition create_roll_body :: "datetime \<Rightarrow> string option \<Rightarrow> RollCreate \<Rightarrow> db \<Rightarrow> (exn + roll) \<times> db" where
  "create_roll_body now fault roll s =
     (if new_length roll \<le> 0 \<or> new_weight roll \<le> 0
      then (Inl (HTTPException 400 ''Length and weight must be positive''), s)
      else (case fault of
              Some m \<Rightarrow> (Inl (SQLAlchemyError m), s)
            | None \<Rightarrow>
                (let db_roll = \<lparr>roll_id = next_id s, roll_length = new_length roll,
                                weight = new_weight roll, added_date = get_utc_time now,
                                removed_date = None\<rparr>
                 in (Inr db_roll, s\<lparr>rows := rows s @ [db_roll], next_id := next_id s + 1\<rparr>))))"

definition create_roll :: "datetime \<Rightarrow> string option \<Rightarrow> RollCreate \<Rightarrow> db \<Rightarrow> (exn + roll) \<times> db" where
  "create_roll now fault roll s = try_except (create_roll_body now fault roll s)"

text \<open>
  The row of the session's object: the update that the commit flushes rewrites the row
  fetched by primary key and no other.
\<close>

fun update_row :: "int \<Rightarrow> (roll \<Rightarrow> roll) \<Rightarrow> roll list \<Rightarrow> roll list" where
  "update_row k f [] = []"
| "update_row k f (r # rs) = (if roll_id r = k then f r # rs else r # update_row k f rs)"

definition delete_roll_body :: "datetime \<Rightarrow> string option \<Rightarrow> int \<Rightarrow> db \<Rightarrow> (exn + roll) \<times> db" where
  "delete_roll_body now fault rid s =
     (case fault of
        Some m \<Rightarrow> (Inl (SQLAlchemyError m), s)
      | None \<Rightarrow>
          (case find (\<lambda>r. roll_id r = rid) (rows s) of
             None \<Rightarrow> (Inl (HTTPException 404 ''Roll not found''), s)
           | Some db_roll \<Rightarrow>
               (if removed_date db_roll \<noteq> None
                then (Inl (HTTPException 400 ''Roll already removed''), s)
                else (let t = get_utc_time now
                      in (Inr (db_roll\<lparr>removed_date := Some t\<rparr>),
                          s\<lparr>rows := update_row rid (\<lambda>r. r\<lparr>removed_date := Some t\<rparr>) (rows s)\<rparr>)))))"

definition delete_roll :: "datetime \<Rightarrow> string option \<Rightarrow> int \<Rightarrow> db \<Rightarrow> (exn + roll) \<times> db" where
  "delete_roll now fault rid s = try_except (delete_roll_body now fault rid s)"

section \<open>SQL expressions\<close>

text \<open>
  A comparison with NULL is NULL, and a WHERE clause keeps the rows on which its condition
  is true. A nullable column is an \<open>option\<close>; a condition is a \<open>bool option\<close>, \<open>None\<close>
  for NULL.
\<close>

definition sql_ge :: "'a::linorder option \<Rightarrow> 'a \<Rightarrow> bool option" where
  "sql_ge c v = (case c of None \<Rightarrow> None | Some x \<Rightarrow> Some (v \<le> x))"

definition sql_le :: "'a::linorder option \<Rightarrow> 'a \<Rightarrow> bool option" where
  "sql_le c v = (case c of None \<Rightarrow> None | Some x \<Rightarrow> Some (x \<le> v))"

definition sql_lt :: "'a::linorder option \<Rightarrow> 'a \<Rightarrow> bool option" where
  "sql_lt c v = (case c of None \<Rightarrow> None | Some x \<Rightarrow> Some (x < v))"

definition sql_is_null :: "'a option \<Rightarrow> bool option" where
  "sql_is_null c = Some (c = None)"

definition sql_isnot_null :: "'a option \<Rightarrow> bool option" where
  "sql_isnot_null c = Some (c \<noteq> None)"

definition sql_and :: "bool option \<Rightarrow> bool option \<Rightarrow> bool option" where
  "sql_and a b =
     (if a = Some False \<or> b = Some False then Some False
      else if a = Some True \<and> b = Some True then Some True
      else None)"

definition sql_or :: "bool option \<Rightarrow> bool option \<Rightarrow> bool option" where
  "sql_or a b =
     (if a = Some True \<or> b = Some True then Some True
      else if a = Some False \<and> b = Some False then Some False
      else None)"

definition sql_between :: "'a::linorder option \<Rightarrow> 'a \<Rightarrow> 'a \<Rightarrow> bool option" where
  "sql_between c lo hi = sql_and (sql_ge c lo) (sql_le c hi)"

text \<open>\<^verbatim>\<open>.filter\<close> on the criteria collected: their conjunction; none at all is no restriction.\<close>

definition sql_all :: "('r \<Rightarrow> bool option) list \<Rightarrow> 'r \<Rightarrow> bool option" where
  "sql_all fs r = foldl (\<lambda>acc f. sql_and acc (f r)) (Some True) fs"

definition query_filter :: "('r \<Rightarrow> bool option) list \<Rightarrow> 'r list \<Rightarrow> 'r list" where
  "query_filter fs rs = filter (\<lambda>r. sql_all fs r = Some True) rs"

text \<open>Aggregates skip NULL and are NULL over no value.\<close>

fun non_null :: "'a option list \<Rightarrow> 'a list" where
  "non_null [] = []"
| "non_null (None # xs) = non_null xs"
| "non_null (Some x # xs) = x # non_null xs"

fun sql_min :: "'a::linorder list \<Rightarrow> 'a option" where
  "sql_min [] = None"
| "sql_min (x # xs) = Some (fold min xs x)"

fun sql_max :: "'a::linorder list \<Rightarrow> 'a option" where
  "sql_max [] = None"
| "sql_max (x # xs) = Some (fold max xs x)"

fun sql_sum :: "rat list \<Rightarrow> rat option" where
  "sql_sum [] = None"
| "sql_sum (x # xs) = Some (sum_list (x # xs))"

fun sql_avg :: "rat list \<Rightarrow> rat option" where
  "sql_avg [] = None"
| "sql_avg (x # xs) = Some (sum_list (x # xs) / of_nat (length (x # xs)))"

definition coalesce :: "'a option \<Rightarrow> 'a \<Rightarrow> 'a" where
  "coalesce v d = (case v of None \<Rightarrow> d | Some x \<Rightarrow> x)"

section \<open>List\<close>

text \<open>The ten optional query parameters of get_rolls.\<close>

record filters =
  id_start :: "int option"
  id_end :: "int option"
  length_start :: "rat option"
  length_end :: "rat option"
  weight_start :: "rat option"
  weight_end :: "rat option"
  added_start :: "datetime option"
  added_end :: "datetime option"
  removed_start :: "datetime option"
  removed_end :: "datetime option"

text \<open>
  The list \<^verbatim>\<open>filters\<close> after the ten \<^verbatim>\<open>if ... is not None: filters.append(...)\<close>, in the
  source's order. Only \<^verbatim>\<open>removed_date\<close> is read as a nullable column.
\<close>

definition build_filters :: "filters \<Rightarrow> (roll \<Rightarrow> bool option) list" where
  "build_filters q =
     (case id_start q of None \<Rightarrow> [] | Some v \<Rightarrow> [\<lambda>r. sql_ge (Some (roll_id r)) v]) @
     (case id_end q of None \<Rightarrow> [] | Some v \<Rightarrow> [\<lambda>r. sql_le (Some (roll_id r)) v]) @
     (case length_start q of None \<Rightarrow> [] | Some v \<Rightarrow> [\<lambda>r. sql_ge (Some (roll_length r)) v]) @
     (case length_end q of None \<Rightarrow> [] | Some v \<Rightarrow> [\<lambda>r. sql_le (Some (roll_length r)) v]) @
     (case weight_start q of None \<Rightarrow> [] | Some v \<Rightarrow> [\<lambda>r. sql_ge (Some (weight r)) v]) @
     (case weight_end q of None \<Rightarrow> [] | Some v \<Rightarrow> [\<lambda>r. sql_le (Some (weight r)) v]) @
     (case added_start q of None \<Rightarrow> [] | Some v \<Rightarrow> [\<lambda>r. sql_ge (Some (added_date r)) v]) @
     (case added_end q of None \<Rightarrow> [] | Some v \<Rightarrow> [\<lambda>r. sql_le (Some (added_date r)) v]) @
     (case removed_start q of None \<Rightarrow> [] | Some v \<Rightarrow> [\<lambda>r. sql_ge (removed_date r) v]) @
     (case removed_end q of None \<Rightarrow> [] | Some v \<Rightarrow> [\<lambda>r. sql_le (removed_date r) v])"

definition get_rolls_body :: "string option \<Rightarrow> filters \<Rightarrow> db \<Rightarrow> (exn + roll list) \<times> db" where
  "get_rolls_body fault q s =
     (case fault of
        Some m \<Rightarrow> (Inl (SQLAlchemyError m), s)
      | None \<Rightarrow> (Inr (query_filter (build_filters q) (rows s)), s))"

definition get_rolls :: "string option \<Rightarrow> filters \<Rightarrow> db \<Rightarrow> (exn + roll list) \<times> db" where
  "get_rolls fault q s = try_except (get_rolls_body fault q s)"

text \<open>
  The reading of the specification: a roll is within the supplied bounds when every bound
  that is present holds of it, inclusively; a bound on \<^verbatim>\<open>removed_date\<close> holds of no roll
  that is still present.
\<close>

definition bound_ge :: "'a::linorder option \<Rightarrow> 'a \<Rightarrow> bool" where
  "bound_ge b x = (case b of None \<Rightarrow> True | Some v \<Rightarrow> v \<le> x)"

definition bound_le :: "'a::linorder option \<Rightarrow> 'a \<Rightarrow> bool" where
  "bound_le b x = (case b of None \<Rightarrow> True | Some v \<Rightarrow> x \<le> v)"

definition bound_ge_opt :: "'a::linorder option \<Rightarrow> 'a option \<Rightarrow> bool" where
  "bound_ge_opt b c = (case b of None \<Rightarrow> True | Some v \<Rightarrow> (case c of None \<Rightarrow> False | Some x \<Rightarrow> v \<le> x))"

definition bound_le_opt :: "'a::linorder option \<Rightarrow> 'a option \<Rightarrow> bool" where
  "bound_le_opt b c = (case b of None \<Rightarrow> True | Some v \<Rightarrow> (case c of None \<Rightarrow> False | Some x \<Rightarrow> x \<le> v))"

definition within_bounds :: "filters \<Rightarrow> roll \<Rightarrow> bool" where
  "within_bounds q r =
     (bound_ge (id_start q) (roll_id r) \<and> bound_le (id_end q) (roll_id r) \<and>
      bound_ge (length_start q) (roll_length r) \<and> bound_le (length_end q) (roll_length r) \<and>
      bound_ge (weight_start q) (weight r) \<and> bound_le (weight_end q) (weight r) \<and>
      bound_ge (added_start q) (added_date r) \<and> bound_le (added_end q) (added_date r) \<and>
      bound_ge_opt (removed_start q) (removed_date r) \<and> bound_le_opt (removed_end q) (removed_date r))"

definition no_filters :: filters where
  "no_filters = \<lparr>id_start = None, id_end = None, length_start = None, length_end = None,
                 weight_start = None, weight_end = None, added_start = None, added_end = None,
                 removed_start = None, removed_end = None\<rparr>"

section \<open>Statistics\<close>

record StatisticsResponse =
  added_count :: nat
  removed_count :: nat
  avg_length :: "rat option"
  avg_weight :: "rat option"
  min_length :: "rat option"
  max_length :: "rat option"
  min_weight :: "rat option"
  max_weight :: "rat option"
  total_weight :: "rat option"
  max_interval :: "rat option"
  min_interval :: "rat option"
  day_min_count :: "date option"
  day_max_count :: "date option"
  day_min_weight :: "date option"
  day_max_weight :: "date option"

definition presence_condition :: "datetime \<Rightarrow> datetime \<Rightarrow> roll \<Rightarrow> bool option" where
  "presence_condition start_date end_date r =
     sql_and (sql_le (Some (added_date r)) end_date)
             (sql_or (sql_ge (removed_date r) start_date) (sql_is_null (removed_date r)))"

subsection \<open>Dwell intervals\<close>

text \<open>
  \<^verbatim>\<open>extract(epoch from i) / 86400\<close>: an interval in microseconds as a number of days.
\<close>

definition epoch_days :: "int \<Rightarrow> rat" where
  "epoch_days i = of_int i / 1000000 / 86400"

text \<open>
  The rows of interval_query and its two aggregates, \<^verbatim>\<open>max_days\<close> and \<^verbatim>\<open>min_days\<close>.
\<close>

definition interval_rows :: "datetime \<Rightarrow> datetime \<Rightarrow> roll list \<Rightarrow> roll list" where
  "interval_rows start_date end_date rs =
     query_filter [\<lambda>r. sql_isnot_null (removed_date r), presence_condition start_date end_date] rs"

definition dwell :: "roll \<Rightarrow> int option" where
  "dwell r = (case removed_date r of None \<Rightarrow> None | Some t \<Rightarrow> Some (t - added_date r))"

definition max_days :: "datetime \<Rightarrow> datetime \<Rightarrow> roll list \<Rightarrow> rat option" where
  "max_days start_date end_date rs =
     map_option epoch_days (sql_max (non_null (map dwell (interval_rows start_date end_date rs))))"

definition min_days :: "datetime \<Rightarrow> datetime \<Rightarrow> roll list \<Rightarrow> rat option" where
  "min_days start_date end_date rs =
     map_option epoch_days (sql_min (non_null (map dwell (interval_rows start_date end_date rs))))"

text \<open>
  Python's \<^verbatim>\<open>round(x, 2)\<close>, to the nearest hundredth, a tie to the even one.
\<close>

definition py_round2 :: "rat \<Rightarrow> rat" where
  "py_round2 x =
     (let y = x * 100; f = \<lfloor>y\<rfloor>; d = y - of_int f
      in of_int (if d < 1 / 2 then f else if 1 / 2 < d then f + 1
                 else if even f then f else f + 1) / 100)"

text \<open>The truth value of an optional number: \<^verbatim>\<open>None\<close> and zero are false.\<close>

definition truthy :: "rat option \<Rightarrow> bool" where
  "truthy v = (case v of None \<Rightarrow> False | Some x \<Rightarrow> x \<noteq> 0)"

text \<open>
  \<^verbatim>\<open>round(q.max_days, 2) if q and q.max_days else None\<close>; the row \<^verbatim>\<open>q\<close> of an aggregate query
  is always there.
\<close>

definition interval_field :: "rat option \<Rightarrow> rat option" where
  "interval_field days = (if truthy days then map_option py_round2 days else None)"

subsection \<open>The daily series\<close>

definition usec_per_day :: int where
  "usec_per_day = 86400000000"

text \<open>\<^verbatim>\<open>t.astimezone(timezone.utc).date()\<close>.\<close>

definition utc_date :: "datetime \<Rightarrow> date" where
  "utc_date t = t div usec_per_day"

text \<open>
  The handler passes the two dates to the database as dates, and \<^verbatim>\<open>generate_series\<close> with
  an interval step runs over \<^verbatim>\<open>timestamptz\<close>: the database places a date at midnight in the
  time zone of its session, which the service never sets. \<open>tz\<close> is the offset of that zone,
  in microseconds east of UTC (0 for a session in UTC, 10800000000 for one in Moscow), taken
  constant over the window. \<^verbatim>\<open>day::date\<close> reads the instant back in the same zone and gives
  the date that went in.
\<close>

definition day_start :: "int \<Rightarrow> date \<Rightarrow> datetime" where
  "day_start tz d = d * usec_per_day - tz"

function generate_series :: "date \<Rightarrow> date \<Rightarrow> date list" where
  "generate_series cur stop = (if cur \<le> stop then cur # generate_series (cur + 1) stop else [])"
  by pat_completeness auto
termination
  by (relation "measure (\<lambda>(cur, stop). nat (stop + 1 - cur))") auto

declare generate_series.simps [simp del]

text \<open>The ON condition of the join of a day with a roll.\<close>

definition present_on :: "int \<Rightarrow> date \<Rightarrow> roll \<Rightarrow> bool option" where
  "present_on tz d r =
     sql_and (sql_lt (Some (added_date r)) (day_start tz d + usec_per_day))
             (sql_or (sql_ge (removed_date r) (day_start tz d)) (sql_is_null (removed_date r)))"

text \<open>
  LEFT JOIN: a day is paired with every roll the condition is true of, and with NULL when
  there is none.
\<close>

definition join_day :: "int \<Rightarrow> roll list \<Rightarrow> date \<Rightarrow> (date \<times> roll option) list" where
  "join_day tz rs d =
     (let ms = filter (\<lambda>r. present_on tz d r = Some True) rs
      in if ms = [] then [(d, None)] else map (\<lambda>r. (d, Some r)) ms)"

definition left_join :: "int \<Rightarrow> date list \<Rightarrow> roll list \<Rightarrow> (date \<times> roll option) list" where
  "left_join tz ds rs = concat (map (join_day tz rs) ds)"

text \<open>GROUP BY day ORDER BY day: one group per distinct day, in ascending order.\<close>

definition group_by_day :: "(date \<times> roll option) list \<Rightarrow> (date \<times> roll option list) list" where
  "group_by_day js =
     map (\<lambda>d. (d, map snd (filter (\<lambda>j. fst j = d) js))) (sort (remdups (map fst js)))"

record day_row =
  day :: date
  rolls_count :: nat
  row_total_weight :: rat

text \<open>\<^verbatim>\<open>COUNT(rolls.id)\<close> and \<^verbatim>\<open>COALESCE(SUM(rolls.weight), 0)\<close> of a group.\<close>

definition day_aggregate :: "date \<times> roll option list \<Rightarrow> day_row" where
  "day_aggregate g =
     \<lparr>day = fst g,
      rolls_count = length (non_null (map (map_option roll_id) (snd g))),
      row_total_weight = coalesce (sql_sum (non_null (map (map_option weight) (snd g)))) 0\<rparr>"

definition daily_series :: "int \<Rightarrow> datetime \<Rightarrow> datetime \<Rightarrow> roll list \<Rightarrow> day_row list" where
  "daily_series tz start_date end_date rs =
     map day_aggregate
       (group_by_day (left_join tz (generate_series (utc_date start_date) (utc_date end_date)) rs))"

subsection \<open>The scan for the extreme days\<close>

text \<open>
  One \<^verbatim>\<open>if / elif\<close> block of the loop: \<open>st\<close> is the running extreme with the days that reach
  it, \<open>better\<close> is \<open><\<close> for a minimum and \<open>>\<close> for a maximum.
\<close>

definition track :: "('v \<Rightarrow> 'v \<Rightarrow> bool) \<Rightarrow> 'v option \<times> date list \<Rightarrow> date \<Rightarrow> 'v \<Rightarrow> 'v option \<times> date list" where
  "track better st current_day v =
     (case fst st of
        None \<Rightarrow> (Some v, [current_day])
      | Some m \<Rightarrow>
          if better v m then (Some v, [current_day])
          else if v = m then (Some m, snd st @ [current_day])
          else st)"

text \<open>
  The eight variables of the loop; the running extremes of the daily weight are
  \<^verbatim>\<open>min_weight\<close> and \<^verbatim>\<open>max_weight\<close> in the source.
\<close>

record scan =
  min_count :: "nat option"
  min_count_days :: "date list"
  max_count :: "nat option"
  max_count_days :: "date list"
  min_day_weight :: "rat option"
  min_weight_days :: "date list"
  max_day_weight :: "rat option"
  max_weight_days :: "date list"

definition scan_init :: scan where
  "scan_init = \<lparr>min_count = None, min_count_days = [], max_count = None, max_count_days = [],
                min_day_weight = None, min_weight_days = [],
                max_day_weight = None, max_weight_days = []\<rparr>"

definition scan_step :: "scan \<Rightarrow> day_row \<Rightarrow> scan" where
  "scan_step st row =
     (let a = track (\<lambda>x y. x < y) (min_count st, min_count_days st) (day row) (rolls_count row);
          b = track (\<lambda>x y. x > y) (max_count st, max_count_days st) (day row) (rolls_count row);
          c = track (\<lambda>x y. x < y) (min_day_weight st, min_weight_days st) (day row) (row_total_weight row);
          d = track (\<lambda>x y. x > y) (max_day_weight st, max_weight_days st) (day row) (row_total_weight row)
      in \<lparr>min_count = fst a, min_count_days = snd a, max_count = fst b, max_count_days = snd b,
          min_day_weight = fst c, min_weight_days = snd c,
          max_day_weight = fst d, max_weight_days = snd d\<rparr>)"

definition scan_rows :: "day_row list \<Rightarrow> scan" where
  "scan_rows rws = foldl scan_step scan_init rws"

text \<open>\<^verbatim>\<open>min(days) if days else None\<close>.\<close>

fun earliest :: "date list \<Rightarrow> date option" where
  "earliest [] = None"
| "earliest (d # ds) = Some (fold min ds d)"

subsection \<open>The reading of the specification\<close>


text \<open>
  The claim's reading of the series, by UTC calendar days: a roll is present on day \<open>d\<close>
  when it was added before the next UTC day starts and was not removed before the UTC day
  \<open>d\<close> starts; the entry of a day counts the rolls present and adds up their weights.
\<close>

definition utc_midnight :: "date \<Rightarrow> datetime" where
  "utc_midnight d = d * usec_per_day"

definition present_that_day :: "date \<Rightarrow> roll \<Rightarrow> bool" where
  "present_that_day d r =
     (added_date r < utc_midnight (d + 1) \<and>
      (case removed_date r of None \<Rightarrow> True | Some t \<Rightarrow> utc_midnight d \<le> t))"

definition day_entry :: "roll list \<Rightarrow> date \<Rightarrow> day_row" where
  "day_entry rs d =
     \<lparr>day = d,
      rolls_count = length (filter (present_that_day d) rs),
      row_total_weight = sum_list (map weight (filter (present_that_day d) rs))\<rparr>"

text \<open>
  The same reading for the 24 hours that start at an instant \<open>t\<close>, and the entry of day
  \<open>d\<close> when the days start at the midnights of the session.
\<close>

definition present_from :: "datetime \<Rightarrow> roll \<Rightarrow> bool" where
  "present_from t r =
     (added_date r < t + usec_per_day \<and>
      (case removed_date r of None \<Rightarrow> True | Some x \<Rightarrow> t \<le> x))"

definition session_entry :: "int \<Rightarrow> roll list \<Rightarrow> date \<Rightarrow> day_row" where
  "session_entry tz rs d =
     \<lparr>day = d,
      rolls_count = length (filter (present_from (day_start tz d)) rs),
      row_total_weight = sum_list (map weight (filter (present_from (day_start tz d)) rs))\<rparr>"

subsection \<open>The handler\<close>

definition statistics :: "int \<Rightarrow> datetime \<Rightarrow> datetime \<Rightarrow> roll list \<Rightarrow> StatisticsResponse" where
  "statistics tz start_date end_date rs =
     (let present = query_filter [presence_condition start_date end_date] rs;
          sc = scan_rows (daily_series tz start_date end_date rs)
      in \<lparr>added_count =
             length (query_filter [\<lambda>r. sql_between (Some (added_date r)) start_date end_date] rs),
          removed_count =
             length (query_filter [\<lambda>r. sql_between (removed_date r) start_date end_date] rs),
          avg_length = sql_avg (map roll_length present),
          avg_weight = sql_avg (map weight present),
          min_length = sql_min (map roll_length present),
          max_length = sql_max (map roll_length present),
          min_weight = sql_min (map weight present),
          max_weight = sql_max (map weight present),
          total_weight = sql_sum (map weight present),
          max_interval = interval_field (max_days start_date end_date rs),
          min_interval = interval_field (min_days start_date end_date rs),
          day_min_count = earliest (min_count_days sc),
          day_max_count = earliest (max_count_days sc),
          day_min_weight = earliest (min_weight_days sc),
          day_max_weight = earliest (max_weight_days sc)\<rparr>)"

definition get_statistics_body :: "int \<Rightarrow> string option \<Rightarrow> datetime \<Rightarrow> datetime \<Rightarrow> db \<Rightarrow> (exn + StatisticsResponse) \<times> db" where
  "get_statistics_body tz fault start_date end_date s =
     (if start_date > end_date
      then (Inl (HTTPException 400 ''Start date must be before end date''), s)
      else (case fault of
              Some m \<Rightarrow> (Inl (SQLAlchemyError m), s)
            | None \<Rightarrow> (Inr (statistics tz start_date end_date (rows s)), s)))"

definition get_statistics :: "int \<Rightarrow> string option \<Rightarrow> datetime \<Rightarrow> datetime \<Rightarrow> db \<Rightarrow> (exn + StatisticsResponse) \<times> db" where
  "get_statistics tz fault start_date end_date s =
     try_except (get_statistics_body tz fault start_date end_date s)"

section \<open>The service as a whole\<close>

datatype request =
  Create RollCreate
  | Delete int
  | ListRolls filters
  | Statistics datetime datetime

text \<open>
  The database after one request, served at instant \<open>now\<close> over a session in the zone
  \<open>tz\<close>.
\<close>

fun serve :: "int \<Rightarrow> datetime \<Rightarrow> string option \<Rightarrow> request \<Rightarrow> db \<Rightarrow> db" where
  "serve tz now fault (Create roll) s = snd (create_roll now fault roll s)"
| "serve tz now fault (Delete rid) s = snd (delete_roll now fault rid s)"
| "serve tz now fault (ListRolls q) s = snd (get_rolls fault q s)"
| "serve tz now fault (Statistics start_date end_date) s = snd (get_statistics tz fault start_date end_date s)"

fun serve_all :: "int \<Rightarrow> (datetime \<times> string option \<times> request) list \<Rightarrow> db \<Rightarrow> db" where
  "serve_all tz [] s = s"
| "serve_all tz ((now, fault, req) # reqs) s = serve_all tz reqs (serve tz now fault req s)"

definition lookup :: "int \<Rightarrow> db \<Rightarrow> roll option" where
  "lookup k s = find (\<lambda>r. roll_id r = k) (rows s)"

section \<open>Configuration\<close>

text \<open>
  config.py. The environment is a map from names to values. The parsed file is a map from
  section names to the options of the section; a file that is not there parses to no
  section at all. \<^verbatim>\<open>config.get\<close> raises when the section or the option is missing.
\<close>

datatype config_error =
  NoSectionError string
  | NoOptionError string string

type_synonym environ = "string \<rightharpoonup> string"
type_synonym config_file = "string \<rightharpoonup> (string \<rightharpoonup> string)"

definition config_get :: "config_file \<Rightarrow> string \<Rightarrow> string \<Rightarrow> config_error + string" where
  "config_get cfg section option =
     (case cfg section of
        None \<Rightarrow> Inl (NoSectionError section)
      | Some opts \<Rightarrow>
          (case opts option of
             None \<Rightarrow> Inl (NoOptionError option section)
           | Some v \<Rightarrow> Inr v))"

definition getenv :: "environ \<Rightarrow> string \<Rightarrow> string \<Rightarrow> string" where
  "getenv env name dflt = (case env name of None \<Rightarrow> dflt | Some v \<Rightarrow> v)"

text \<open>
  One entry of the dictionary: Python evaluates the arguments of a call before the call,
  so \<^verbatim>\<open>config.get(...)\<close> runs, and may raise, before \<^verbatim>\<open>os.getenv\<close> looks at the environment.
\<close>

definition config_entry :: "environ \<Rightarrow> config_file \<Rightarrow> string \<Rightarrow> config_error + string" where
  "config_entry env cfg name =
     (case config_get cfg ''database'' name of
        Inl e \<Rightarrow> Inl e
      | Inr dflt \<Rightarrow> Inr (getenv env name dflt))"

record db_config =
  host :: string
  database :: string
  username :: string
  password :: string

definition get_db_config :: "environ \<Rightarrow> config_file \<Rightarrow> config_error + db_config" where
  "get_db_config env cfg =
     (case config_entry env cfg ''DB_HOST'' of
        Inl e \<Rightarrow> Inl e
      | Inr h \<Rightarrow>
     (case config_entry env cfg ''DB_NAME'' of
        Inl e \<Rightarrow> Inl e
      | Inr d \<Rightarrow>
     (case config_entry env cfg ''DB_USER'' of
        Inl e \<Rightarrow> Inl e
      | Inr u \<Rightarrow>
     (case config_entry env cfg ''DB_PASSWORD'' of
        Inl e \<Rightarrow> Inl e
      | Inr p \<Rightarrow> Inr \<lparr>host = h, database = d, username = u, password = p\<rparr>))))"

section \<open>The error responses\<close>

lemma show_nat_400: "show_nat 400 = ''400''"
  by (simp add: show_nat.simps digit_char_def)

lemma show_nat_404: "show_nat 404 = ''404''"
  by (simp add: show_nat.simps digit_char_def)

text \<open>
  Every create request with a non-positive length or weight is answered with status 500,
  whatever the state of the database, and leaves the table as it was: the HTTPException 400
  raised by the check is caught by the handler's own \<^verbatim>\<open>except Exception\<close>.
\<close>

lemma create_roll_invalid:
  "new_length roll \<le> 0 \<or> new_weight roll \<le> 0 \<Longrightarrow>
   create_roll now fault roll s =
     (Inl (HTTPException 500 ''Unexpected error: 400: Length and weight must be positive''), s)"
  by (simp add: create_roll_def create_roll_body_def try_except_def show_nat_400)

text \<open>
  C1. A create request with length 0 and weight 5 on an empty table: the claim asks for a
  client error with status 400; the handler answers with status 500. No row is stored.
\<close>

theorem create_roll_invalid_status:
  "create_roll 0 None \<lparr>new_length = 0, new_weight = 5\<rparr> \<lparr>rows = [], next_id = 1\<rparr> =
     (Inl (HTTPException 500 ''Unexpected error: 400: Length and weight must be positive''),
      \<lparr>rows = [], next_id = 1\<rparr>)"
  by (simp add: create_roll_def create_roll_body_def try_except_def show_nat_400)

text \<open>
  The two refusals of delete_roll, in general: both end as status 500, and the table is
  left as it was.
\<close>

lemma delete_roll_not_found:
  "find (\<lambda>r. roll_id r = rid) (rows s) = None \<Longrightarrow>
   delete_roll now None rid s = (Inl (HTTPException 500 ''Unexpected error: 404: Roll not found''), s)"
  by (simp add: delete_roll_def delete_roll_body_def try_except_def show_nat_404)

lemma delete_roll_already_removed:
  "find (\<lambda>r. roll_id r = rid) (rows s) = Some r \<Longrightarrow> removed_date r = Some t \<Longrightarrow>
   delete_roll now None rid s = (Inl (HTTPException 500 ''Unexpected error: 400: Roll already removed''), s)"
  by (simp add: delete_roll_def delete_roll_body_def try_except_def show_nat_400)

text \<open>
  C2. Deleting id 7 from an empty table, and deleting roll 1 that was removed before: the
  claim asks for status 404 and status 400; the handler answers both with status 500 (the
  details differ). The table is unchanged in both.
\<close>

theorem delete_roll_error_status:
  "delete_roll 0 None 7 \<lparr>rows = [], next_id = 1\<rparr> =
     (Inl (HTTPException 500 ''Unexpected error: 404: Roll not found''), \<lparr>rows = [], next_id = 1\<rparr>) \<and>
   delete_roll 5000000 None 1
     \<lparr>rows = [\<lparr>roll_id = 1, roll_length = 10, weight = 5, added_date = 0,
               removed_date = Some 1000000\<rparr>], next_id = 2\<rparr> =
     (Inl (HTTPException 500 ''Unexpected error: 400: Roll already removed''),
      \<lparr>rows = [\<lparr>roll_id = 1, roll_length = 10, weight = 5, added_date = 0,
                removed_date = Some 1000000\<rparr>], next_id = 2\<rparr>)"
  by (simp add: delete_roll_def delete_roll_body_def try_except_def show_nat_400 show_nat_404)

text \<open>
  A statistics request with the start after the end is answered with status 500, whatever
  the state of the database; with the start not after the end the check passes and the
  statistics are computed.
\<close>

lemma get_statistics_invalid:
  "end_date < start_date \<Longrightarrow>
   get_statistics tz fault start_date end_date s =
     (Inl (HTTPException 500 ''Unexpected error: 400: Start date must be before end date''), s)"
  by (simp add: get_statistics_def get_statistics_body_def try_except_def show_nat_400)

lemma get_statistics_valid:
  "start_date \<le> end_date \<Longrightarrow>
   get_statistics tz None start_date end_date s = (Inr (statistics tz start_date end_date (rows s)), s)"
  by (simp add: get_statistics_def get_statistics_body_def try_except_def)

text \<open>
  C3. A statistics request from instant 2 to instant 1: the claim asks for a client error
  with status 400; the handler answers with status 500.
\<close>

theorem get_statistics_invalid_status:
  "get_statistics tz None 2 1 \<lparr>rows = [], next_id = 1\<rparr> =
     (Inl (HTTPException 500 ''Unexpected error: 400: Start date must be before end date''),
      \<lparr>rows = [], next_id = 1\<rparr>)"
  by (simp add: get_statistics_def get_statistics_body_def try_except_def show_nat_400)

section \<open>The dwell intervals\<close>

text \<open>
  C5. A roll added and removed within the same second (both timestamps are cut to whole
  seconds) lies in the presence set of the window and has been removed, and its dwell is 0
  days: the truth test of the handler takes 0 for no value, and both intervals are null.
\<close>

theorem zero_dwell_interval_null:
  "interval_rows 0 86400000000
     [\<lparr>roll_id = 1, roll_length = 10, weight = 5, added_date = 1000000,
       removed_date = Some 1000000\<rparr>] =
     [\<lparr>roll_id = 1, roll_length = 10, weight = 5, added_date = 1000000,
       removed_date = Some 1000000\<rparr>] \<and>
   max_interval (statistics tz 0 86400000000
     [\<lparr>roll_id = 1, roll_length = 10, weight = 5, added_date = 1000000,
       removed_date = Some 1000000\<rparr>]) = None \<and>
   min_interval (statistics tz 0 86400000000
     [\<lparr>roll_id = 1, roll_length = 10, weight = 5, added_date = 1000000,
       removed_date = Some 1000000\<rparr>]) = None"
  by (simp add: statistics_def interval_field_def max_days_def min_days_def interval_rows_def
      query_filter_def sql_all_def sql_isnot_null_def presence_condition_def sql_and_def
      sql_or_def sql_le_def sql_ge_def sql_is_null_def dwell_def epoch_days_def truthy_def
      Let_def)

section \<open>The configuration\<close>

text \<open>
  Whenever the file has no value for a key, the loader fails, whatever the environment
  holds.
\<close>

lemma config_entry_needs_file:
  "config_get cfg ''database'' name = Inl e \<Longrightarrow> config_entry env cfg name = Inl e"
  by (simp add: config_entry_def)

lemma config_entry_env_first:
  "config_get cfg ''database'' name = Inr d \<Longrightarrow> env name = Some v \<Longrightarrow>
   config_entry env cfg name = Inr v"
  by (simp add: config_entry_def getenv_def)

text \<open>
  C7. All four variables are set in the environment and there is no configuration file:
  the claim asks for the values of the environment; the loader raises NoSectionError.
\<close>

theorem get_db_config_env_without_file:
  "get_db_config
     [''DB_HOST'' \<mapsto> ''h'', ''DB_NAME'' \<mapsto> ''d'', ''DB_USER'' \<mapsto> ''u'', ''DB_PASSWORD'' \<mapsto> ''p'']
     Map.empty = Inl (NoSectionError ''database'')"
  by (simp add: get_db_config_def config_entry_def config_get_def)

section \<open>Reading leaves the table alone\<close>

lemma try_except_snd: "snd (try_except res) = snd res"
  by (cases res) (auto simp: try_except_def split: sum.splits)

lemma get_rolls_snd: "snd (get_rolls fault q s) = s"
  by (simp add: get_rolls_def try_except_snd get_rolls_body_def split: option.splits)

lemma get_statistics_snd: "snd (get_statistics tz fault start_date end_date s) = s"
  by (simp add: get_statistics_def try_except_snd get_statistics_body_def split: option.splits)

text \<open>
  C10. A list request and a statistics request return the database they were given, for
  every state, every request and every outcome (a result, a refused request, a failing
  database).
\<close>

theorem reads_leave_db:
  "snd (get_rolls fault q s) = s \<and> snd (get_statistics tz fault start_date end_date s) = s"
  by (simp add: get_rolls_snd get_statistics_snd)

section \<open>Removal is final\<close>

lemma find_snoc:
  "find P (xs @ [y]) = (case find P xs of Some x \<Rightarrow> Some x | None \<Rightarrow> if P y then Some y else None)"
  by (induction xs) auto

lemma find_update_row_other:
  "k \<noteq> rid \<Longrightarrow> (\<And>r. roll_id (f r) = roll_id r) \<Longrightarrow>
   find (\<lambda>r. roll_id r = k) (update_row rid f rs) = find (\<lambda>r. roll_id r = k) rs"
  by (induction rs) auto

lemma create_roll_lookup:
  "lookup k s = Some r \<Longrightarrow> lookup k (snd (create_roll now fault roll s)) = Some r"
  by (auto simp: lookup_def create_roll_def try_except_snd create_roll_body_def Let_def find_snoc
           split: option.splits)

lemma delete_roll_lookup:
  assumes "lookup k s = Some r" and "removed_date r \<noteq> None"
  shows "lookup k (snd (delete_roll now fault rid s)) = Some r"
proof (cases "k = rid")
  case True
  with assms show ?thesis
    by (auto simp: lookup_def delete_roll_def try_except_snd delete_roll_body_def split: option.splits)
next
  case False
  then have "find (\<lambda>r. roll_id r = k) (update_row rid (\<lambda>r. r\<lparr>removed_date := Some t\<rparr>) (rows s))
             = find (\<lambda>r. roll_id r = k) (rows s)" for t
    by (rule find_update_row_other) simp
  with assms show ?thesis
    by (auto simp: lookup_def delete_roll_def try_except_snd delete_roll_body_def Let_def split: option.splits)
qed

lemma serve_lookup:
  "lookup k s = Some r \<Longrightarrow> removed_date r \<noteq> None \<Longrightarrow> lookup k (serve tz now fault req s) = Some r"
  by (cases req) (simp_all add: create_roll_lookup delete_roll_lookup get_rolls_snd get_statistics_snd)

lemma serve_all_lookup:
  "lookup k s = Some r \<Longrightarrow> removed_date r \<noteq> None \<Longrightarrow> lookup k (serve_all tz reqs s) = Some r"
proof (induction reqs arbitrary: s)
  case Nil
  then show ?case by simp
next
  case (Cons a reqs)
  obtain now fault req where a: "a = (now, fault, req)" by (cases a)
  from Cons.prems have "lookup k (serve tz now fault req s) = Some r" by (rule serve_lookup)
  with Cons.IH Cons.prems(2) show ?case by (simp add: a)
qed

text \<open>
  C8. A roll whose removed_date is set is found under its id, unchanged, after any request
  and after any sequence of requests (create, delete, list, statistics; at any instant,
  with the database failing or not).
\<close>

theorem removed_date_is_final:
  assumes "lookup k s = Some r" and "removed_date r = Some t"
  shows "lookup k (serve tz now fault req s) = Some r \<and> lookup k (serve_all tz reqs s) = Some r"
  using assms by (simp add: serve_lookup serve_all_lookup)

theorem removed_date_is_final_witness:
  "lookup 1 \<lparr>rows = [\<lparr>roll_id = 1, roll_length = 10, weight = 5, added_date = 0,
                      removed_date = Some 1000000\<rparr>], next_id = 2\<rparr> =
     Some \<lparr>roll_id = 1, roll_length = 10, weight = 5, added_date = 0, removed_date = Some 1000000\<rparr> \<and>
   removed_date \<lparr>roll_id = 1, roll_length = 10, weight = 5, added_date = 0,
                 removed_date = Some 1000000\<rparr> = Some 1000000 \<and>
   lookup 1 (serve 0 5000000 None (Delete 1)
       \<lparr>rows = [\<lparr>roll_id = 1, roll_length = 10, weight = 5, added_date = 0,
                 removed_date = Some 1000000\<rparr>], next_id = 2\<rparr>) =
     Some \<lparr>roll_id = 1, roll_length = 10, weight = 5, added_date = 0, removed_date = Some 1000000\<rparr> \<and>
   lookup 1 (serve_all 0 [(5000000, None, Delete 1),
                        (6000000, None, Create \<lparr>new_length = 3, new_weight = 4\<rparr>),
                        (7000000, None, Delete 2)]
       \<lparr>rows = [\<lparr>roll_id = 1, roll_length = 10, weight = 5, added_date = 0,
                 removed_date = Some 1000000\<rparr>], next_id = 2\<rparr>) =
     Some \<lparr>roll_id = 1, roll_length = 10, weight = 5, added_date = 0, removed_date = Some 1000000\<rparr>"
proof -
  have a: "lookup 1 \<lparr>rows = [\<lparr>roll_id = 1, roll_length = 10, weight = 5, added_date = 0,
                      removed_date = Some 1000000\<rparr>], next_id = 2\<rparr> =
     Some \<lparr>roll_id = 1, roll_length = 10, weight = 5, added_date = 0, removed_date = Some 1000000\<rparr>"
    by (simp add: lookup_def)
  have b: "removed_date \<lparr>roll_id = 1, roll_length = 10, weight = 5, added_date = 0,
                 removed_date = Some 1000000\<rparr> = Some 1000000"
    by simp
  from a b removed_date_is_final [OF a b] show ?thesis
    by blast
qed

section \<open>The list\<close>

lemma foldl_sql_and:
  "foldl (\<lambda>acc f. sql_and acc (f r)) a fs = Some True \<longleftrightarrow> a = Some True \<and> (\<forall>f \<in> set fs. f r = Some True)"
  by (induction fs arbitrary: a) (auto simp: sql_and_def)

lemma sql_all_iff: "sql_all fs r = Some True \<longleftrightarrow> (\<forall>f \<in> set fs. f r = Some True)"
  by (simp add: sql_all_def foldl_sql_and)

lemma crit_ge: "(\<forall>f \<in> set (case b of None \<Rightarrow> [] | Some v \<Rightarrow> [\<lambda>r. sql_ge (Some (g r)) v]). f r = Some True) \<longleftrightarrow> bound_ge b (g r)"
  by (simp add: bound_ge_def sql_ge_def split: option.splits)

lemma crit_le: "(\<forall>f \<in> set (case b of None \<Rightarrow> [] | Some v \<Rightarrow> [\<lambda>r. sql_le (Some (g r)) v]). f r = Some True) \<longleftrightarrow> bound_le b (g r)"
  by (simp add: bound_le_def sql_le_def split: option.splits)

lemma crit_ge_opt: "(\<forall>f \<in> set (case b of None \<Rightarrow> [] | Some v \<Rightarrow> [\<lambda>r. sql_ge (g r) v]). f r = Some True) \<longleftrightarrow> bound_ge_opt b (g r)"
  by (simp add: bound_ge_opt_def sql_ge_def split: option.splits)

lemma crit_le_opt: "(\<forall>f \<in> set (case b of None \<Rightarrow> [] | Some v \<Rightarrow> [\<lambda>r. sql_le (g r) v]). f r = Some True) \<longleftrightarrow> bound_le_opt b (g r)"
  by (simp add: bound_le_opt_def sql_le_def split: option.splits)

lemma build_filters_iff: "sql_all (build_filters q) r = Some True \<longleftrightarrow> within_bounds q r"
  unfolding sql_all_iff build_filters_def within_bounds_def set_append ball_Un
  by (simp only: crit_ge crit_le crit_ge_opt crit_le_opt)

lemma within_no_filters: "within_bounds no_filters r"
  by (simp add: within_bounds_def no_filters_def bound_ge_def bound_le_def bound_ge_opt_def bound_le_opt_def)

text \<open>
  C6. With the database answering, a list request returns exactly the rolls within the
  supplied bounds, in storage order; with no bound, all rolls; with both bounds on the id
  set to \<open>x\<close>, the rolls whose id is \<open>x\<close>.
\<close>

theorem get_rolls_exact:
  "get_rolls None q s = (Inr (filter (within_bounds q) (rows s)), s) \<and>
   get_rolls None no_filters s = (Inr (rows s), s) \<and>
   get_rolls None (no_filters\<lparr>id_start := Some x, id_end := Some x\<rparr>) s = (Inr (filter (\<lambda>r. roll_id r = x) (rows s)), s)"
proof -
  have a: "query_filter (build_filters q') rs = filter (within_bounds q') rs" for q' rs
    by (simp add: query_filter_def build_filters_iff)
  have b: "filter (within_bounds no_filters) rs = rs" for rs
    by (simp add: within_no_filters)
  have c: "within_bounds (no_filters\<lparr>id_start := Some x, id_end := Some x\<rparr>) = (\<lambda>r. roll_id r = x)"
    by (auto simp: within_bounds_def no_filters_def bound_ge_def bound_le_def bound_ge_opt_def bound_le_opt_def)
  show ?thesis
    by (simp add: get_rolls_def get_rolls_body_def try_except_def a b c)
qed

section \<open>The daily series\<close>

lemma generate_series_upto: "generate_series a b = [a..b]"
proof (induction a b rule: generate_series.induct)
  case (1 cur stop)
  show ?case
  proof (cases "cur \<le> stop")
    case True
    with 1 show ?thesis
      by (subst generate_series.simps) (simp add: upto_rec1[of cur stop] upto.simps)
  next
    case False
    then show ?thesis
      by (subst generate_series.simps) simp
  qed
qed

lemma present_on_iff: "present_on tz d r = Some True \<longleftrightarrow> present_from (day_start tz d) r"
  by (auto simp: present_on_def present_from_def sql_and_def sql_or_def sql_lt_def sql_ge_def
        sql_is_null_def split: option.splits)

lemma join_day_fst: "set (map fst (join_day tz rs d)) = {d}"
  by (auto simp: join_day_def Let_def image_image filter_empty_conv)

lemma left_join_days: "set (map fst (left_join tz ds rs)) = set ds"
proof (induction ds)
  case Nil
  show ?case by (simp add: left_join_def)
next
  case (Cons d ds)
  have "set (map fst (left_join tz (d # ds) rs)) =
        set (map fst (join_day tz rs d)) \<union> set (map fst (left_join tz ds rs))"
    by (simp add: left_join_def)
  then show ?case using Cons join_day_fst[of tz rs d] by simp
qed

lemma filter_join_day_same: "filter (\<lambda>j. fst j = d) (join_day tz rs d) = join_day tz rs d"
  by (auto simp: join_day_def Let_def filter_id_conv)

lemma filter_join_day_other: "d' \<noteq> d \<Longrightarrow> filter (\<lambda>j. fst j = d) (join_day tz rs d') = []"
  by (auto simp: join_day_def Let_def filter_empty_conv)

lemma group_of_day:
  "distinct ds \<Longrightarrow> d \<in> set ds \<Longrightarrow> filter (\<lambda>j. fst j = d) (left_join tz ds rs) = join_day tz rs d"
proof (induction ds)
  case Nil
  then show ?case by simp
next
  case (Cons a ds)
  have split: "filter (\<lambda>j. fst j = d) (left_join tz (a # ds) rs) =
        filter (\<lambda>j. fst j = d) (join_day tz rs a) @ filter (\<lambda>j. fst j = d) (left_join tz ds rs)"
    by (simp add: left_join_def)
  show ?case
  proof (cases "a = d")
    case True
    with Cons.prems have "d \<notin> set ds" by simp
    then have "d \<notin> set (map fst (left_join tz ds rs))" by (simp only: left_join_days not_False_eq_True)
    then have "filter (\<lambda>j. fst j = d) (left_join tz ds rs) = []"
      by (auto simp: filter_empty_conv)
    then show ?thesis unfolding split using True by (simp add: filter_join_day_same)
  next
    case False
    with Cons show ?thesis unfolding split by (simp add: filter_join_day_other)
  qed
qed

lemma non_null_Some: "non_null (map (\<lambda>x. Some (f x)) xs) = map f xs"
  by (induction xs) auto

lemma sql_sum_sum_list: "coalesce (sql_sum xs) 0 = sum_list xs"
  by (cases xs) (simp_all add: coalesce_def)

lemma aggregate_join_day: "day_aggregate (d, map snd (join_day tz rs d)) = session_entry tz rs d"
proof -
  have eq: "filter (\<lambda>r. present_on tz d r = Some True) rs = filter (present_from (day_start tz d)) rs"
    by (simp add: present_on_iff)
  show ?thesis
  proof (cases "filter (present_from (day_start tz d)) rs = []")
    case True
    then show ?thesis
      by (simp add: day_aggregate_def session_entry_def join_day_def eq coalesce_def)
  next
    case False
    have "map snd (join_day tz rs d) = map Some (filter (present_from (day_start tz d)) rs)"
      using False by (simp add: join_day_def eq comp_def)
    then show ?thesis
      by (simp add: day_aggregate_def session_entry_def comp_def non_null_Some sql_sum_sum_list)
  qed
qed

lemma group_by_day_sorted:
  assumes "sorted ds" and "distinct ds"
  shows "map day_aggregate (group_by_day (left_join tz ds rs)) = map (session_entry tz rs) ds"
proof -
  have "sort (remdups (map fst (left_join tz ds rs))) =
        sorted_list_of_set (set (map fst (left_join tz ds rs)))"
    by (simp only: sorted_list_of_set_sort_remdups)
  also have "\<dots> = sorted_list_of_set (set ds)" by (simp only: left_join_days)
  also have "\<dots> = ds" using assms by (rule sorted_list_of_set.idem_if_sorted_distinct)
  finally have days: "sort (remdups (map fst (left_join tz ds rs))) = ds" .
  have "day_aggregate (d, map snd (filter (\<lambda>j. fst j = d) (left_join tz ds rs))) = session_entry tz rs d"
    if "d \<in> set ds" for d
    using group_of_day[OF assms(2) that] by (simp add: aggregate_join_day)
  then show ?thesis
    by (simp add: group_by_day_def days)
qed

text \<open>
  What the query returns, in a session of any zone: one entry for each day from the UTC
  day of the start to the UTC day of the end, in order, and the entry of day \<open>d\<close> counts
  the rolls present in the 24 hours from the session's midnight of \<open>d\<close>.
\<close>

lemma daily_series_eq:
  "daily_series tz start_date end_date rs =
     map (session_entry tz rs) [utc_date start_date..utc_date end_date]"
  by (simp add: daily_series_def generate_series_upto group_by_day_sorted)

lemma utc_date_mono: "a \<le> b \<Longrightarrow> utc_date a \<le> utc_date b"
  by (simp add: utc_date_def usec_per_day_def zdiv_mono1)

text \<open>
  The length of the series does not depend on the session: one entry per UTC day of the
  window, at least one for a valid request, exactly one when the start is the end.
\<close>

lemma daily_series_length:
  assumes "start_date \<le> end_date"
  shows "map day (daily_series tz start_date end_date rs) = [utc_date start_date..utc_date end_date] \<and>
         length (daily_series tz start_date end_date rs) = nat (utc_date end_date - utc_date start_date + 1) \<and>
         daily_series tz start_date end_date rs \<noteq> [] \<and>
         length (daily_series tz start_date start_date rs) = 1"
proof -
  have le: "utc_date start_date \<le> utc_date end_date" using assms by (rule utc_date_mono)
  have len: "length (daily_series tz a b rs) = nat (utc_date b - utc_date a + 1)" for a b
    by (simp add: daily_series_eq)
  have "0 < length (daily_series tz start_date end_date rs)" using le by (simp add: len)
  then have ne: "daily_series tz start_date end_date rs \<noteq> []" by blast
  have days: "map day (daily_series tz start_date end_date rs) = [utc_date start_date..utc_date end_date]"
    by (simp add: daily_series_eq comp_def session_entry_def)
  show ?thesis using ne days by (simp add: len)
qed

text \<open>
  In a session whose zone is UTC the entries are those of the claim, by UTC calendar days.
\<close>

lemma session_entry_utc: "session_entry 0 rs d = day_entry rs d"
proof -
  have "present_from (day_start 0 d) = present_that_day d"
    by (rule ext)
       (auto simp: present_from_def present_that_day_def day_start_def utc_midnight_def
          algebra_simps split: option.splits)
  then show ?thesis
    by (simp add: session_entry_def day_entry_def)
qed

lemma daily_series_utc_session:
  "daily_series 0 start_date end_date rs = map (day_entry rs) [utc_date start_date..utc_date end_date]"
  by (simp add: daily_series_eq session_entry_utc)

text \<open>
  C9. The handler takes the two days in UTC (\<^verbatim>\<open>start_date_utc\<close>, \<^verbatim>\<open>end_date_utc\<close>) and the
  database starts each of them at the midnight of its session. In a session in Moscow
  (three hours east of UTC), with one roll of weight 5 added on day 0 at 22:00 UTC and a
  request over days 0 and 1: the roll is present on the UTC day 0, and the claim asks for
  one roll and weight 5 on day 0; the query counts no roll on day 0, whose 24 hours ended at
  21:00 UTC.
\<close>

theorem daily_series_session_midnight:
  "daily_series 10800000000 0 86400000000
     [\<lparr>roll_id = 1, roll_length = 10, weight = 5, added_date = 79200000000, removed_date = None\<rparr>] =
     [\<lparr>day = 0, rolls_count = 0, row_total_weight = 0\<rparr>,
      \<lparr>day = 1, rolls_count = 1, row_total_weight = 5\<rparr>] \<and>
   map (day_entry
     [\<lparr>roll_id = 1, roll_length = 10, weight = 5, added_date = 79200000000, removed_date = None\<rparr>])
     [utc_date 0..utc_date 86400000000] =
     [\<lparr>day = 0, rolls_count = 1, row_total_weight = 5\<rparr>,
      \<lparr>day = 1, rolls_count = 1, row_total_weight = 5\<rparr>]"
  by (simp add: daily_series_eq session_entry_def present_from_def day_entry_def
        present_that_day_def utc_midnight_def day_start_def utc_date_def usec_per_day_def
        upto_rec1)

section \<open>The extreme days\<close>














end
